theory Spec2Isabelle
  imports Main
begin

section \<open>The parsed-options mapping\<close>

text \<open>
  \<open>manage.py\<close> keeps the result of \<open>docopt(__doc__)\<close> in the module-level dictionary
  \<open>OPTIONS\<close>. Its values are booleans (commands and switches), strings (\<open>--port\<close>,
  \<open>--log_dir\<close>) or \<open>None\<close> (\<open>--log_dir\<close> when the flag is absent). The dictionary is
  a map from keys to such values; a missing key is \<open>None\<close> of the option type and raises
  \<open>KeyError\<close> where the source subscripts the dictionary.
\<close>

datatype pyval = PyNone | PyBool bool | PyStr string

fun truthy :: "pyval \<Rightarrow> bool" where
  "truthy PyNone = False"
| "truthy (PyBool b) = b"
| "truthy (PyStr s) = (s \<noteq> [])"

fun py_str :: "pyval \<Rightarrow> string" where
  "py_str PyNone = ''None''"
| "py_str (PyBool b) = (if b then ''True'' else ''False'')"
| "py_str (PyStr s) = s"

type_synonym options = "string \<Rightarrow> pyval option"

text \<open>
  The command line after parsing: the command word, the value of \<open>-p/--port\<close> and of
  \<open>-l/--log_dir\<close> when given, and the \<open>--config_prod\<close> switch.
\<close>

record cli =
  cli_command :: string
  cli_port :: "string option"
  cli_log_dir :: "string option"
  cli_config_prod :: bool

definition command_names :: "string list" where
  "command_names =
     [''devserver'', ''tornadoserver'', ''celerydev'', ''celerybeat'', ''celeryworker'',
      ''shell'', ''create_all'']"

text \<open>
  The dictionary that docopt builds from the usage text of the module docstring: one
  boolean per command word, true for the one given; \<open>--config_prod\<close> as a boolean;
  \<open>--log_dir\<close> as the given string or \<open>None\<close>; \<open>--port\<close> as the given string or the
  default \<open>5000\<close>; the two help switches, false when a command runs.
\<close>

definition port_value :: "cli \<Rightarrow> string" where
  "port_value c = (case cli_port c of None \<Rightarrow> ''5000'' | Some p \<Rightarrow> p)"

definition docopt :: "cli \<Rightarrow> options" where
  "docopt c =
     map_of
       (map (\<lambda>n. (n, PyBool (cli_command c = n))) command_names @
        [(''--config_prod'', PyBool (cli_config_prod c)),
         (''--log_dir'', (case cli_log_dir c of None \<Rightarrow> PyNone | Some d \<Rightarrow> PyStr d)),
         (''--port'', PyStr (port_value c)),
         (''--help'', PyBool False),
         (''-h'', PyBool False)])"

section \<open>Exceptions, the logging state and the process state\<close>

datatype key = StrKey string | IntKey int

datatype exn =
    SystemExit int
  | KeyError key
  | AttributeError string
  | TypeError string
  | ValueError string

definition DEBUG :: int where "DEBUG = 10"
definition INFO :: int where "INFO = 20"
definition WARN :: int where "WARN = 30"
definition ERROR :: int where "ERROR = 40"
definition FATAL :: int where "FATAL = 50"

text \<open>
  A handler of the logging library writes to a stream or to a file and has a level of
  its own; the source builds one \<open>StreamHandler(sys.stdout)\<close>.
\<close>

datatype stream = Stdout | Stderr

datatype log_target = Stream stream | File string

record log_handler =
  target :: log_target
  hlevel :: int
  formatter :: "string \<times> string"

text \<open>The calls that the operation handlers make into the frameworks, in order.\<close>

datatype call =
    GetConfig string
  | CreateApp string bool
  | AppRun string int
  | WSGIContainer
  | WebApplication string string
  | HTTPServer
  | ServerBind pyval
  | ServerStart nat
  | IOLoopStart
  | CeleryMain "string list"
  | ContextEnter
  | ContextExit
  | ContextPush
  | ShellRun
  | DbCreateAll

record world =
  stdout :: "string list"
  sigint_exit :: "int option"
  root_level :: int
  root_handlers :: "log_handler list"
  celery_logging_setup :: bool
  delivered :: "(log_target \<times> int \<times> string) list"
  calls :: "call list"

text \<open>
  At start nothing is printed, SIGINT has Python's default disposition, the root logger
  has the library's default level WARNING and no handler.
\<close>

definition init_world :: world where
  "init_world =
     \<lparr>stdout = [], sigint_exit = None, root_level = WARN, root_handlers = [],
      celery_logging_setup = False, delivered = [], calls = []\<rparr>"

type_synonym outcome = "(exn \<times> world) + world"

definition print :: "string \<Rightarrow> world \<Rightarrow> world" where
  "print s w = w\<lparr>stdout := stdout w @ [s]\<rparr>"

definition call :: "call \<Rightarrow> world \<Rightarrow> world" where
  "call c w = w\<lparr>calls := calls w @ [c]\<rparr>"

text \<open>
  The targets a record of level \<open>lvl\<close> reaches when logged through a logger without
  level and handlers of its own (as \<open>logging.getLogger(__name__)\<close> is): the root
  logger's level gates the record, then each root handler's level does.
\<close>

definition log_targets :: "world \<Rightarrow> int \<Rightarrow> log_target list" where
  "log_targets w lvl =
     (if root_level w \<le> lvl
      then map target (filter (\<lambda>h. hlevel h \<le> lvl) (root_handlers w))
      else [])"

definition log_emit :: "int \<Rightarrow> string \<Rightarrow> world \<Rightarrow> world" where
  "log_emit lvl msg w =
     w\<lparr>delivered := delivered w @ map (\<lambda>t. (t, lvl, msg)) (log_targets w lvl)\<rparr>"

section \<open>CustomFormatter\<close>

definition LEVEL_MAP :: "int \<Rightarrow> char option" where
  "LEVEL_MAP =
     map_of [(FATAL, CHR ''F''), (ERROR, CHR ''E''), (WARN, CHR ''W''), (INFO, CHR ''I''),
             (DEBUG, CHR ''D'')]"

record log_record =
  levelno :: int
  message :: string
  levelletter :: "char option"

text \<open>
  \<open>CustomFormatter.format\<close>: the lookup of the record's level in \<open>LEVEL_MAP\<close>, then the
  library's \<open>Formatter.format\<close> (the parameter \<open>super_format\<close>) on the record with its
  new attribute.
\<close>

definition CustomFormatter_format ::
  "(log_record \<Rightarrow> string) \<Rightarrow> log_record \<Rightarrow> exn + string" where
  "CustomFormatter_format super_format r =
     (case LEVEL_MAP (levelno r) of
        None \<Rightarrow> Inl (KeyError (IntKey (levelno r)))
      | Some l \<Rightarrow> Inr (super_format (r\<lparr>levelletter := Some l\<rparr>)))"

section \<open>The environment: file system and frameworks\<close>

record app =
  config_debug :: string
  fsh_static_folder :: string
  static_folder :: string

text \<open>
  What the program reads from outside: \<open>os.path.isdir\<close>, \<open>os.access(_, os.W_OK)\<close>,
  \<open>flask.__version__\<close>, and the application object that \<open>create_app\<close> returns for a
  configuration class and the \<open>no_sql\<close> switch.
\<close>

record env =
  isdir :: "string \<Rightarrow> bool"
  access_w :: "string \<Rightarrow> bool"
  flask_version :: string
  create_app :: "string \<Rightarrow> bool \<Rightarrow> app"

section \<open>setup\_logging\<close>

definition fmt :: string where
  "fmt = ''%(levelletter)s%(asctime)s.%(msecs)d %(process)d %(filename)s:%(lineno)d] %(message)s''"

definition datefmt :: string where
  "datefmt = ''%m%d %H:%M:%S''"

definition console_handler :: "bool \<Rightarrow> log_handler" where
  "console_handler log_to_disk =
     \<lparr>target = Stream Stdout, hlevel = (if log_to_disk then ERROR else DEBUG),
      formatter = (fmt, datefmt)\<rparr>"

definition install_logging :: "bool \<Rightarrow> world \<Rightarrow> world" where
  "install_logging log_to_disk w =
     w\<lparr>root_level := DEBUG, root_handlers := root_handlers w @ [console_handler log_to_disk]\<rparr>"

definition setup_logging :: "options \<Rightarrow> env \<Rightarrow> world \<Rightarrow> outcome" where
  "setup_logging opts e w =
     (case opts ''--log_dir'' of
        None \<Rightarrow> Inl (KeyError (StrKey ''--log_dir''), w)
      | Some v \<Rightarrow>
          if truthy v then
            (case v of
               PyStr d \<Rightarrow>
                 if \<not> isdir e d then
                   Inl (SystemExit 1, print (''ERROR: Directory '' @ d @ '' does not exist.'') w)
                 else if \<not> access_w e d then
                   Inl (SystemExit 1,
                        print (''ERROR: No permissions to write to directory '' @ d @ ''.'') w)
                 else Inr (install_logging True w)
             | _ \<Rightarrow> Inl (TypeError ''isdir'', w))
          else Inr (install_logging False w))"

section \<open>The command decorator and the operation handlers\<close>

record pyfunc =
  func_name :: string
  func_body :: "options \<Rightarrow> env \<Rightarrow> world \<Rightarrow> outcome"

text \<open>
  \<open>command(func)\<close>: raises \<open>KeyError\<close> when the function's name is no key of
  \<open>OPTIONS\<close>; stores the function in the attribute \<open>command.chosen\<close> (the third
  argument, \<open>None\<close> while the attribute is unset) when its option is true; returns the
  wrapper, which has the function's name and calls it.
\<close>

definition command ::
  "options \<Rightarrow> pyfunc \<Rightarrow> pyfunc option \<Rightarrow> exn + (pyfunc option \<times> pyfunc)" where
  "command opts func chosen =
     (let wrapped = \<lparr>func_name = func_name func, func_body = func_body func\<rparr> in
      case opts (func_name func) of
        None \<Rightarrow>
          Inl (KeyError (StrKey (''Cannot register '' @ func_name func @
                                 '', not mentioned in docstring/docopt.'')))
      | Some v \<Rightarrow> Inr (if truthy v then Some func else chosen, wrapped))"

definition and_then :: "(exn \<times> world) + 'a \<Rightarrow> ('a \<Rightarrow> (exn \<times> world) + 'b) \<Rightarrow> (exn \<times> world) + 'b" where
  "and_then r f = (case r of Inl x \<Rightarrow> Inl x | Inr y \<Rightarrow> f y)"

definition subscript :: "options \<Rightarrow> string \<Rightarrow> world \<Rightarrow> (exn \<times> world) + pyval" where
  "subscript opts k w =
     (case opts k of None \<Rightarrow> Inl (KeyError (StrKey k), w) | Some v \<Rightarrow> Inr v)"

definition parse_options :: "options \<Rightarrow> world \<Rightarrow> (exn \<times> world) + (string \<times> world)" where
  "parse_options opts w =
     and_then (subscript opts ''--config_prod'' w) (\<lambda>v.
       let config_class_string =
             (if truthy v then ''pypi_portal.config.Production'' else ''pypi_portal.config.Config'')
       in Inr (config_class_string, call (GetConfig config_class_string) w))"

definition log_messages :: "env \<Rightarrow> app \<Rightarrow> pyval \<Rightarrow> string \<Rightarrow> world \<Rightarrow> world" where
  "log_messages e a port fsh_folder w =
     log_emit INFO (''STATIC_FOLDER: '' @ static_folder a)
       (log_emit INFO (''FLASK_STATICS_HELPER_FOLDER: '' @ fsh_folder)
         (log_emit INFO (''DEBUG: '' @ config_debug a)
           (log_emit INFO (''Flask version: '' @ flask_version e)
             (log_emit INFO (''Server is running at http://0.0.0.0:'' @ py_str port @ ''/'') w))))"

definition digit_char :: "char \<Rightarrow> bool" where
  "digit_char c = (c \<in> set ''0123456789'')"

definition isdigit :: "string \<Rightarrow> bool" where
  "isdigit s = (s \<noteq> [] \<and> list_all digit_char s)"

definition int_of_digits :: "string \<Rightarrow> int" where
  "int_of_digits s = foldl (\<lambda>a c. 10 * a + (int (of_char c) - 48)) 0 s"

text \<open>
  \<open>int(x)\<close> as the handlers use it. On a string of decimal digits it is the number
  written. Python's \<open>int\<close> also reads some other strings (a sign, blanks around the
  number); no such string passes the port check of the main block, and the model does
  not tell them from the strings \<open>int\<close> rejects.
\<close>

fun py_int :: "pyval \<Rightarrow> exn + int" where
  "py_int PyNone = Inl (TypeError ''int'')"
| "py_int (PyBool b) = Inr (if b then 1 else 0)"
| "py_int (PyStr s) = (if isdigit s then Inr (int_of_digits s) else Inl (ValueError s))"

definition devserver_body :: "options \<Rightarrow> env \<Rightarrow> world \<Rightarrow> outcome" where
  "devserver_body opts e w =
     and_then (parse_options opts w) (\<lambda>(cfg, w1).
       let a = create_app e cfg False;
           w2 = call (CreateApp cfg False) w1;
           fsh_folder = fsh_static_folder a
       in and_then (subscript opts ''--port'' w2) (\<lambda>port.
            let w3 = log_messages e a port fsh_folder w2
            in (case py_int port of
                  Inl x \<Rightarrow> Inl (x, w3)
                | Inr n \<Rightarrow> Inr (call (AppRun ''0.0.0.0'' n) w3))))"

definition tornadoserver_body :: "options \<Rightarrow> env \<Rightarrow> world \<Rightarrow> outcome" where
  "tornadoserver_body opts e w =
     and_then (parse_options opts w) (\<lambda>(cfg, w1).
       let a = create_app e cfg False;
           w2 = call (CreateApp cfg False) w1;
           fsh_folder = fsh_static_folder a
       in and_then (subscript opts ''--port'' w2) (\<lambda>port.
            let w3 = log_messages e a port fsh_folder w2;
                w4 = call HTTPServer
                       (call (WebApplication fsh_folder (static_folder a))
                          (call WSGIContainer w3))
            in and_then (subscript opts ''--port'' w4) (\<lambda>port'.
                 Inr (call IOLoopStart (call (ServerStart 0) (call (ServerBind port') w4))))))"

definition celery :: "string list \<Rightarrow> options \<Rightarrow> env \<Rightarrow> world \<Rightarrow> outcome" where
  "celery celery_args opts e w =
     and_then (parse_options opts w) (\<lambda>(cfg, w1).
       let w2 = call (CreateApp cfg True) w1;
           w3 = w2\<lparr>celery_logging_setup := True\<rparr>
       in Inr (call ContextExit (call (CeleryMain celery_args) (call ContextEnter w3))))"

definition celerydev_body :: "options \<Rightarrow> env \<Rightarrow> world \<Rightarrow> outcome" where
  "celerydev_body =
     celery [''celery'', ''worker'', ''-B'', ''-s'', ''/tmp/celery.db'', ''--concurrency=5'']"

definition celerybeat_body :: "options \<Rightarrow> env \<Rightarrow> world \<Rightarrow> outcome" where
  "celerybeat_body = celery [''celery'', ''beat'', ''-C'', ''--pidfile=celery_beat.pid'']"

definition celeryworker_body :: "options \<Rightarrow> env \<Rightarrow> world \<Rightarrow> outcome" where
  "celeryworker_body =
     celery [''celery'', ''worker'', ''-C'', ''--autoscale=10,1'', ''--without-gossip'']"

definition shell_body :: "options \<Rightarrow> env \<Rightarrow> world \<Rightarrow> outcome" where
  "shell_body opts e w =
     and_then (parse_options opts w) (\<lambda>(cfg, w1).
       Inr (call ShellRun (call ContextPush (call (CreateApp cfg False) w1))))"

definition create_all_body :: "options \<Rightarrow> env \<Rightarrow> world \<Rightarrow> outcome" where
  "create_all_body opts e w =
     and_then (parse_options opts w) (\<lambda>(cfg, w1).
       Inr (call ContextExit (call DbCreateAll (call ContextEnter (call (CreateApp cfg False) w1)))))"

definition devserver :: pyfunc where
  "devserver = \<lparr>func_name = ''devserver'', func_body = devserver_body\<rparr>"

definition tornadoserver :: pyfunc where
  "tornadoserver = \<lparr>func_name = ''tornadoserver'', func_body = tornadoserver_body\<rparr>"

definition celerydev :: pyfunc where
  "celerydev = \<lparr>func_name = ''celerydev'', func_body = celerydev_body\<rparr>"

definition celerybeat :: pyfunc where
  "celerybeat = \<lparr>func_name = ''celerybeat'', func_body = celerybeat_body\<rparr>"

definition celeryworker :: pyfunc where
  "celeryworker = \<lparr>func_name = ''celeryworker'', func_body = celeryworker_body\<rparr>"

definition shell :: pyfunc where
  "shell = \<lparr>func_name = ''shell'', func_body = shell_body\<rparr>"

definition create_all :: pyfunc where
  "create_all = \<lparr>func_name = ''create_all'', func_body = create_all_body\<rparr>"

text \<open>The decorated definitions of the module, in the order of the file.\<close>

definition decorated :: "pyfunc list" where
  "decorated =
     [devserver, tornadoserver, celerydev, celerybeat, celeryworker, shell, create_all]"

fun register_all :: "options \<Rightarrow> pyfunc list \<Rightarrow> pyfunc option \<Rightarrow> exn + pyfunc option" where
  "register_all opts [] chosen = Inr chosen"
| "register_all opts (f # fs) chosen =
     (case command opts f chosen of
        Inl x \<Rightarrow> Inl x
      | Inr (chosen', wrapped) \<Rightarrow> register_all opts fs chosen')"

section \<open>The main block and the whole script\<close>

definition main :: "options \<Rightarrow> env \<Rightarrow> pyfunc option \<Rightarrow> world \<Rightarrow> outcome" where
  "main opts e chosen w =
     and_then (setup_logging opts e (w\<lparr>sigint_exit := Some 0\<rparr>)) (\<lambda>w1.
       and_then (subscript opts ''--port'' w1) (\<lambda>port.
         case port of
           PyStr p \<Rightarrow>
             if \<not> isdigit p then Inl (SystemExit 1, print ''ERROR: Port should be a number.'' w1)
             else (case chosen of
                     None \<Rightarrow> Inl (AttributeError ''chosen'', w1)
                   | Some f \<Rightarrow> func_body f opts e w1)
         | _ \<Rightarrow> Inl (AttributeError ''isdigit'', w1)))"

text \<open>
  Running the file: the options are parsed when the module body starts, the decorators
  run as the definitions are read, then the main block.
\<close>

definition script :: "cli \<Rightarrow> env \<Rightarrow> outcome" where
  "script c e =
     (let OPTIONS = docopt c in
      case register_all OPTIONS decorated None of
        Inl x \<Rightarrow> Inl (x, init_world)
      | Inr chosen \<Rightarrow> main OPTIONS e chosen init_world)"

definition final_world :: "outcome \<Rightarrow> world" where
  "final_world r = (case r of Inl (x, w) \<Rightarrow> w | Inr w \<Rightarrow> w)"

text \<open>
  The exit status of the interpreter: 0 when the script runs to its end, the argument
  of \<open>sys.exit\<close>, 1 for any other exception that nothing catches.
\<close>

definition exit_code :: "outcome \<Rightarrow> int" where
  "exit_code r =
     (case r of Inr w \<Rightarrow> 0 | Inl (SystemExit n, w) \<Rightarrow> n | Inl (_, w) \<Rightarrow> 1)"

section \<open>Observations on a run and example environments\<close>

text \<open>
  The calls made while an application context opened by a \<open>with\<close> block is active,
  counted from nesting depth \<open>d\<close>.
\<close>

fun in_context :: "nat \<Rightarrow> call list \<Rightarrow> call list" where
  "in_context d [] = []"
| "in_context d (ContextEnter # cs) = in_context (Suc d) cs"
| "in_context d (ContextExit # cs) = in_context (d - 1) cs"
| "in_context d (c # cs) = (if 0 < d then c # in_context d cs else in_context d cs)"

text \<open>The calls that hand control to a server, a worker or an interactive loop.\<close>

fun server_loop :: "call \<Rightarrow> bool" where
  "server_loop (AppRun host port) = True"
| "server_loop (ServerStart n) = True"
| "server_loop IOLoopStart = True"
| "server_loop (CeleryMain args) = True"
| "server_loop ShellRun = True"
| "server_loop c = False"

definition example_app :: app where
  "example_app =
     \<lparr>config_debug = ''True'', fsh_static_folder = ''/srv/fsh/static'',
      static_folder = ''/srv/static''\<rparr>"

definition example_env :: "string list \<Rightarrow> string list \<Rightarrow> env" where
  "example_env dirs writable_dirs =
     \<lparr>isdir = (\<lambda>d. d \<in> set dirs), access_w = (\<lambda>d. d \<in> set writable_dirs),
      flask_version = ''0.10.1'', create_app = (\<lambda>cfg no_sql. example_app)\<rparr>"

text \<open>The command line that gives a command word and no optional flag.\<close>

definition plain :: "string \<Rightarrow> cli" where
  "plain n = \<lparr>cli_command = n, cli_port = None, cli_log_dir = None, cli_config_prod = False\<rparr>"

text \<open>The configuration class that \<open>parse_options\<close> selects for a command line.\<close>

definition config_class :: "cli \<Rightarrow> string" where
  "config_class c =
     (if cli_config_prod c then ''pypi_portal.config.Production'' else ''pypi_portal.config.Config'')"

section \<open>Properties of the formatter and of the decorator\<close>

lemma LEVEL_MAP_dom: "(LEVEL_MAP n = None) = (n \<notin> {FATAL, ERROR, WARN, INFO, DEBUG})"
  by (simp add: LEVEL_MAP_def FATAL_def ERROR_def WARN_def INFO_def DEBUG_def)

text \<open>
  Claim C9. \<open>CustomFormatter.format\<close> formats a record only when its level number is one
  of FATAL, ERROR, WARN, INFO and DEBUG: then the letter is found and the library's
  formatter runs on the record carrying it. For every other level number (NOTSET, a
  custom level) the lookup in \<open>LEVEL_MAP\<close> raises \<open>KeyError\<close> and no line is formatted.
\<close>

theorem format_defined_iff_standard_level:
  "(levelno r \<in> {FATAL, ERROR, WARN, INFO, DEBUG} \<longrightarrow>
      (\<exists>l. LEVEL_MAP (levelno r) = Some l \<and>
           CustomFormatter_format super_format r =
             Inr (super_format (r\<lparr>levelletter := Some l\<rparr>)))) \<and>
   (levelno r \<notin> {FATAL, ERROR, WARN, INFO, DEBUG} \<longrightarrow>
      CustomFormatter_format super_format r = Inl (KeyError (IntKey (levelno r))))"
  using LEVEL_MAP_dom [of "levelno r"]
  by (cases "LEVEL_MAP (levelno r)") (simp_all add: CustomFormatter_format_def)

theorem format_defined_iff_standard_level_witness:
  "(20::int) \<in> {FATAL, ERROR, WARN, INFO, DEBUG} \<and>
   CustomFormatter_format message \<lparr>levelno = 20, message = ''up'', levelletter = None\<rparr> =
     Inr ''up'' \<and>
   (0::int) \<notin> {FATAL, ERROR, WARN, INFO, DEBUG} \<and>
   CustomFormatter_format message \<lparr>levelno = 0, message = ''up'', levelletter = None\<rparr> =
     Inl (KeyError (IntKey 0)) \<and>
   (25::int) \<notin> {FATAL, ERROR, WARN, INFO, DEBUG} \<and>
   CustomFormatter_format message \<lparr>levelno = 25, message = ''up'', levelletter = None\<rparr> =
     Inl (KeyError (IntKey 25))"
  using
    format_defined_iff_standard_level
      [of "\<lparr>levelno = 20, message = ''up'', levelletter = None\<rparr>" message]
    format_defined_iff_standard_level
      [of "\<lparr>levelno = 0, message = ''up'', levelletter = None\<rparr>" message]
    format_defined_iff_standard_level
      [of "\<lparr>levelno = 25, message = ''up'', levelletter = None\<rparr>" message]
  by (simp add: FATAL_def ERROR_def WARN_def INFO_def DEBUG_def)

text \<open>
  Claim C5. A function handed to the \<open>command\<close> decorator whose name is no key of
  \<open>OPTIONS\<close> makes the decorator raise \<open>KeyError\<close>, whatever \<open>command.chosen\<close> holds,
  and the registration of the module stops there: the definitions after it are not
  reached.
\<close>

theorem command_unregistered_name_raises:
  "opts (func_name func) = None \<Longrightarrow>
     command opts func chosen =
       Inl (KeyError (StrKey (''Cannot register '' @ func_name func @
                              '', not mentioned in docstring/docopt.''))) \<and>
     register_all opts (func # fs) chosen =
       Inl (KeyError (StrKey (''Cannot register '' @ func_name func @
                              '', not mentioned in docstring/docopt.'')))"
  by (simp add: command_def)

theorem command_unregistered_name_raises_witness:
  "docopt \<lparr>cli_command = ''devserver'', cli_port = None, cli_log_dir = None,
            cli_config_prod = False\<rparr>
      (func_name \<lparr>func_name = ''runserver'', func_body = devserver_body\<rparr>) = None \<and>
   command
     (docopt \<lparr>cli_command = ''devserver'', cli_port = None, cli_log_dir = None,
               cli_config_prod = False\<rparr>)
     \<lparr>func_name = ''runserver'', func_body = devserver_body\<rparr> None =
       Inl (KeyError (StrKey ''Cannot register runserver, not mentioned in docstring/docopt.''))"
  using command_unregistered_name_raises
    [of "docopt \<lparr>cli_command = ''devserver'', cli_port = None, cli_log_dir = None,
                  cli_config_prod = False\<rparr>"
        "\<lparr>func_name = ''runserver'', func_body = devserver_body\<rparr>" None "[]"]
  by (simp add: docopt_def command_names_def)

section \<open>Facts about the options of a command line\<close>

lemma docopt_log_dir:
  "docopt c ''--log_dir'' = Some (case cli_log_dir c of None \<Rightarrow> PyNone | Some d \<Rightarrow> PyStr d)"
  by (simp add: docopt_def command_names_def)

lemma docopt_port: "docopt c ''--port'' = Some (PyStr (port_value c))"
  by (simp add: docopt_def command_names_def)

lemma docopt_config_prod: "docopt c ''--config_prod'' = Some (PyBool (cli_config_prod c))"
  by (simp add: docopt_def command_names_def)

lemma docopt_command: "n \<in> set command_names \<Longrightarrow> docopt c n = Some (PyBool (cli_command c = n))"
  by (auto simp add: docopt_def command_names_def)

lemma command_docopt:
  "func_name f \<in> set command_names \<Longrightarrow>
     command (docopt c) f chosen =
       Inr (if cli_command c = func_name f then Some f else chosen, f)"
  by (simp add: command_def docopt_command)

lemma decorated_names:
  "func_name devserver = ''devserver''" "func_name tornadoserver = ''tornadoserver''"
  "func_name celerydev = ''celerydev''" "func_name celerybeat = ''celerybeat''"
  "func_name celeryworker = ''celeryworker''" "func_name shell = ''shell''"
  "func_name create_all = ''create_all''"
  by (simp_all add: devserver_def tornadoserver_def celerydev_def celerybeat_def
      celeryworker_def shell_def create_all_def)

lemma register_all_docopt:
  "register_all (docopt c) decorated None =
     Inr (find (\<lambda>f. cli_command c = func_name f) decorated)"
proof -
  have "cli_command c = ''devserver'' \<or> cli_command c = ''tornadoserver'' \<or>
        cli_command c = ''celerydev'' \<or> cli_command c = ''celerybeat'' \<or>
        cli_command c = ''celeryworker'' \<or> cli_command c = ''shell'' \<or>
        cli_command c = ''create_all'' \<or> cli_command c \<notin> set command_names"
    by (auto simp add: command_names_def)
  then show ?thesis
    by (elim disjE)
      (simp_all add: decorated_def command_docopt command_names_def decorated_names)
qed

lemma setup_logging_docopt:
  "setup_logging (docopt c) e w =
     (case cli_log_dir c of
        None \<Rightarrow> Inr (install_logging False w)
      | Some d \<Rightarrow>
          if d = [] then Inr (install_logging False w)
          else if \<not> isdir e d then
            Inl (SystemExit 1, print (''ERROR: Directory '' @ d @ '' does not exist.'') w)
          else if \<not> access_w e d then
            Inl (SystemExit 1, print (''ERROR: No permissions to write to directory '' @ d @ ''.'') w)
          else Inr (install_logging True w))"
  by (simp add: setup_logging_def docopt_log_dir split: option.splits)

lemma script_docopt:
  "script c e =
     and_then (setup_logging (docopt c) e (init_world\<lparr>sigint_exit := Some 0\<rparr>)) (\<lambda>w1.
       if \<not> isdigit (port_value c) then
         Inl (SystemExit 1, print ''ERROR: Port should be a number.'' w1)
       else (case find (\<lambda>f. cli_command c = func_name f) decorated of
               None \<Rightarrow> Inl (AttributeError ''chosen'', w1)
             | Some f \<Rightarrow> func_body f (docopt c) e w1))"
  by (simp add: script_def register_all_docopt main_def subscript_def docopt_port and_then_def
      split: sum.splits)

section \<open>Logging setup and the validations\<close>

lemma final_world_simps [simp]:
  "final_world (Inl (x, w)) = w" "final_world (Inr w) = w"
  by (simp_all add: final_world_def)

lemma exit_code_simps [simp]:
  "exit_code (Inr w) = 0" "exit_code (Inl (SystemExit n, w)) = n"
  by (simp_all add: exit_code_def)

lemma world_simps [simp]:
  "stdout (print s w) = stdout w @ [s]" "calls (print s w) = calls w"
  "root_handlers (print s w) = root_handlers w" "root_level (print s w) = root_level w"
  "sigint_exit (print s w) = sigint_exit w" "delivered (print s w) = delivered w"
  "stdout (install_logging b w) = stdout w" "calls (install_logging b w) = calls w"
  "root_handlers (install_logging b w) = root_handlers w @ [console_handler b]"
  "root_level (install_logging b w) = DEBUG"
  "sigint_exit (install_logging b w) = sigint_exit w"
  "delivered (install_logging b w) = delivered w"
  by (simp_all add: print_def install_logging_def)

lemma init_world_simps [simp]:
  "stdout init_world = []" "calls init_world = []" "root_handlers init_world = []"
  "delivered init_world = []" "root_level init_world = WARN" "sigint_exit init_world = None"
  by (simp_all add: init_world_def)

lemma console_handler_simps [simp]:
  "target (console_handler b) = Stream Stdout"
  "hlevel (console_handler b) = (if b then ERROR else DEBUG)"
  by (simp_all add: console_handler_def)

lemma console_without_log_dir:
  "log_targets (install_logging False init_world) lvl = (if DEBUG \<le> lvl then [Stream Stdout] else [])"
  by (simp add: log_targets_def)

lemma console_with_log_dir:
  "log_targets (install_logging True init_world) lvl = (if ERROR \<le> lvl then [Stream Stdout] else [])"
  by (auto simp add: log_targets_def DEBUG_def ERROR_def)

lemma script_stops_in_setup_logging:
  "setup_logging (docopt c) e (init_world\<lparr>sigint_exit := Some 0\<rparr>) = Inl x \<Longrightarrow> script c e = Inl x"
  by (simp add: script_docopt and_then_def)

text \<open>
  Claim C4, amended. For every non-empty log-directory value that names no existing
  directory, or names a directory that is not writable, \<open>setup_logging\<close> prints the
  matching error line and raises \<open>SystemExit(1)\<close>; the script ends with exit code 1,
  that line is all it printed, no logging handler was installed (so no log file exists)
  and no operation handler made a call.
\<close>

theorem setup_logging_rejects_bad_log_dir:
  "cli_log_dir c = Some d \<Longrightarrow> d \<noteq> [] \<Longrightarrow> \<not> isdir e d \<or> \<not> access_w e d \<Longrightarrow>
     setup_logging (docopt c) e w =
       Inl (SystemExit 1,
            print (if \<not> isdir e d then ''ERROR: Directory '' @ d @ '' does not exist.''
                   else ''ERROR: No permissions to write to directory '' @ d @ ''.'') w) \<and>
     exit_code (script c e) = 1 \<and>
     stdout (final_world (script c e)) =
       [if \<not> isdir e d then ''ERROR: Directory '' @ d @ '' does not exist.''
        else ''ERROR: No permissions to write to directory '' @ d @ ''.''] \<and>
     root_handlers (final_world (script c e)) = [] \<and>
     calls (final_world (script c e)) = []"
proof -
  assume a: "cli_log_dir c = Some d" "d \<noteq> []" "\<not> isdir e d \<or> \<not> access_w e d"
  let ?m = "if \<not> isdir e d then ''ERROR: Directory '' @ d @ '' does not exist.''
            else ''ERROR: No permissions to write to directory '' @ d @ ''.''"
  have s: "setup_logging (docopt c) e w = Inl (SystemExit 1, print ?m w)" for w
    using a by (auto simp add: setup_logging_docopt)
  have "script c e = Inl (SystemExit 1, print ?m (init_world\<lparr>sigint_exit := Some 0\<rparr>))"
    by (rule script_stops_in_setup_logging) (rule s)
  then show ?thesis using s by simp
qed

theorem setup_logging_rejects_bad_log_dir_witness:
  "exit_code
     (script \<lparr>cli_command = ''devserver'', cli_port = None, cli_log_dir = Some ''/nowhere'',
              cli_config_prod = False\<rparr> (example_env [''/etc''] [])) = 1 \<and>
   stdout (final_world
     (script \<lparr>cli_command = ''devserver'', cli_port = None, cli_log_dir = Some ''/nowhere'',
              cli_config_prod = False\<rparr> (example_env [''/etc''] []))) =
     [''ERROR: Directory /nowhere does not exist.''] \<and>
   exit_code
     (script \<lparr>cli_command = ''devserver'', cli_port = None, cli_log_dir = Some ''/etc'',
              cli_config_prod = False\<rparr> (example_env [''/etc''] [])) = 1 \<and>
   stdout (final_world
     (script \<lparr>cli_command = ''devserver'', cli_port = None, cli_log_dir = Some ''/etc'',
              cli_config_prod = False\<rparr> (example_env [''/etc''] []))) =
     [''ERROR: No permissions to write to directory /etc.'']"
  using
    setup_logging_rejects_bad_log_dir
      [of "\<lparr>cli_command = ''devserver'', cli_port = None, cli_log_dir = Some ''/nowhere'',
              cli_config_prod = False\<rparr>" "''/nowhere''" "example_env [''/etc''] []" init_world]
    setup_logging_rejects_bad_log_dir
      [of "\<lparr>cli_command = ''devserver'', cli_port = None, cli_log_dir = Some ''/etc'',
              cli_config_prod = False\<rparr>" "''/etc''" "example_env [''/etc''] []" init_world]
  by (simp add: example_env_def)

lemma setup_logging_docopt_exit:
  "setup_logging (docopt c) e w = Inl (x, w') \<Longrightarrow>
     x = SystemExit 1 \<and> (\<exists>msg. stdout w' = stdout w @ [msg]) \<and> calls w' = calls w"
  by (auto simp add: setup_logging_docopt split: option.splits if_splits)

lemma setup_logging_docopt_ok:
  "setup_logging (docopt c) e w = Inr w' \<Longrightarrow>
     stdout w' = stdout w \<and> calls w' = calls w \<and> (\<exists>b. w' = install_logging b w)"
  by (auto simp add: setup_logging_docopt split: option.splits if_splits)

text \<open>
  Claim C3. For every port value with a character that is no decimal digit, the script
  ends with exit code 1 after printing exactly one error line (that of the log directory
  when \<open>setup_logging\<close> already failed, else that of the port) and no operation handler
  has made any call.
\<close>

theorem non_digit_port_exits_1:
  "cli_port c = Some p \<Longrightarrow> ch \<in> set p \<Longrightarrow> \<not> digit_char ch \<Longrightarrow>
     script c e =
       (case setup_logging (docopt c) e (init_world\<lparr>sigint_exit := Some 0\<rparr>) of
          Inl x \<Rightarrow> Inl x
        | Inr w1 \<Rightarrow> Inl (SystemExit 1, print ''ERROR: Port should be a number.'' w1)) \<and>
     exit_code (script c e) = 1 \<and>
     (\<exists>msg. stdout (final_world (script c e)) = [msg]) \<and>
     calls (final_world (script c e)) = []"
proof -
  assume a: "cli_port c = Some p" "ch \<in> set p" "\<not> digit_char ch"
  then have nd: "\<not> isdigit (port_value c)"
    by (auto simp add: isdigit_def port_value_def list_all_iff)
  let ?s = "setup_logging (docopt c) e (init_world\<lparr>sigint_exit := Some 0\<rparr>)"
  have eq: "script c e =
       (case ?s of Inl x \<Rightarrow> Inl x
        | Inr w1 \<Rightarrow> Inl (SystemExit 1, print ''ERROR: Port should be a number.'' w1))"
    using nd by (simp add: script_docopt and_then_def)
  show ?thesis
  proof (cases ?s)
    case (Inl xw)
    obtain x w' where xw: "xw = (x, w')" by (cases xw)
    from setup_logging_docopt_exit [of c e "init_world\<lparr>sigint_exit := Some 0\<rparr>" x w'] Inl xw
    show ?thesis using eq by (auto simp add: init_world_def)
  next
    case (Inr w1)
    from setup_logging_docopt_ok [of c e "init_world\<lparr>sigint_exit := Some 0\<rparr>" w1] Inr
    show ?thesis using eq by (auto simp add: init_world_def)
  qed
qed

theorem non_digit_port_exits_1_witness:
  "CHR ''a'' \<in> set ''80a'' \<and> \<not> digit_char CHR ''a'' \<and>
   exit_code
     (script \<lparr>cli_command = ''devserver'', cli_port = Some ''80a'', cli_log_dir = None,
              cli_config_prod = False\<rparr> (example_env [] [])) = 1 \<and>
   stdout (final_world
     (script \<lparr>cli_command = ''devserver'', cli_port = Some ''80a'', cli_log_dir = None,
              cli_config_prod = False\<rparr> (example_env [] []))) =
     [''ERROR: Port should be a number.''] \<and>
   calls (final_world
     (script \<lparr>cli_command = ''devserver'', cli_port = Some ''80a'', cli_log_dir = None,
              cli_config_prod = False\<rparr> (example_env [] []))) = []"
  using non_digit_port_exits_1
    [of "\<lparr>cli_command = ''devserver'', cli_port = Some ''80a'', cli_log_dir = None,
            cli_config_prod = False\<rparr>" "''80a''" "CHR ''a''" "example_env [] []"]
  by (simp add: digit_char_def setup_logging_docopt)

section \<open>The operation handlers\<close>

lemma call_simps [simp]:
  "calls (call x w) = calls w @ [x]" "stdout (call x w) = stdout w"
  "delivered (call x w) = delivered w" "root_handlers (call x w) = root_handlers w"
  "root_level (call x w) = root_level w"
  by (simp_all add: call_def)

lemma log_emit_simps [simp]:
  "calls (log_emit l m w) = calls w" "stdout (log_emit l m w) = stdout w"
  "root_handlers (log_emit l m w) = root_handlers w" "root_level (log_emit l m w) = root_level w"
  by (simp_all add: log_emit_def)

lemma log_messages_simps [simp]:
  "calls (log_messages e a p f w) = calls w" "stdout (log_messages e a p f w) = stdout w"
  by (simp_all add: log_messages_def)

lemma parse_options_docopt:
  "parse_options (docopt c) w = Inr (config_class c, call (GetConfig (config_class c)) w)"
  by (simp add: parse_options_def subscript_def and_then_def docopt_config_prod config_class_def
      Let_def)

lemma create_all_body_docopt:
  "create_all_body (docopt c) e w =
     Inr (call ContextExit (call DbCreateAll (call ContextEnter
            (call (CreateApp (config_class c) False) (call (GetConfig (config_class c)) w)))))"
  by (simp add: create_all_body_def parse_options_docopt and_then_def)

lemma devserver_body_docopt:
  "isdigit (port_value c) \<Longrightarrow>
     devserver_body (docopt c) e w =
       Inr (call (AppRun ''0.0.0.0'' (int_of_digits (port_value c)))
              (log_messages e (create_app e (config_class c) False) (PyStr (port_value c))
                 (fsh_static_folder (create_app e (config_class c) False))
                 (call (CreateApp (config_class c) False) (call (GetConfig (config_class c)) w))))"
  by (simp add: devserver_body_def parse_options_docopt and_then_def subscript_def docopt_port Let_def)

lemma tornadoserver_body_docopt:
  "\<exists>w'. tornadoserver_body (docopt c) e w = Inr w' \<and>
        calls w' = calls w @
          [GetConfig (config_class c), CreateApp (config_class c) False, WSGIContainer,
           WebApplication (fsh_static_folder (create_app e (config_class c) False))
             (static_folder (create_app e (config_class c) False)),
           HTTPServer, ServerBind (PyStr (port_value c)), ServerStart 0, IOLoopStart]"
  by (simp add: tornadoserver_body_def parse_options_docopt and_then_def subscript_def docopt_port Let_def)

lemma find_decorated:
  "find (\<lambda>f. n = func_name f) decorated =
     (if n = ''devserver'' then Some devserver
      else if n = ''tornadoserver'' then Some tornadoserver
      else if n = ''celerydev'' then Some celerydev
      else if n = ''celerybeat'' then Some celerybeat
      else if n = ''celeryworker'' then Some celeryworker
      else if n = ''shell'' then Some shell
      else if n = ''create_all'' then Some create_all
      else None)"
  by (simp add: decorated_def decorated_names)

lemma func_body_simps:
  "func_body devserver = devserver_body" "func_body tornadoserver = tornadoserver_body"
  "func_body celerydev = celerydev_body" "func_body celerybeat = celerybeat_body"
  "func_body celeryworker = celeryworker_body" "func_body shell = shell_body"
  "func_body create_all = create_all_body"
  by (simp_all add: devserver_def tornadoserver_def celerydev_def celerybeat_def
      celeryworker_def shell_def create_all_def)

lemma script_plain_flags:
  "cli_log_dir c = None \<Longrightarrow> cli_port c = None \<Longrightarrow>
     script c e =
       (case find (\<lambda>f. cli_command c = func_name f) decorated of
          None \<Rightarrow> Inl (AttributeError ''chosen'', install_logging False (init_world\<lparr>sigint_exit := Some 0\<rparr>))
        | Some f \<Rightarrow> func_body f (docopt c) e (install_logging False (init_world\<lparr>sigint_exit := Some 0\<rparr>)))"
  by (simp add: script_docopt setup_logging_docopt and_then_def port_value_def isdigit_def digit_char_def)

text \<open>
  Claim C6. With the command \<open>create_all\<close>, with or without \<open>--config_prod\<close>, the
  registration leaves \<open>create_all\<close> in \<open>command.chosen\<close>; the script runs to its end
  (exit code 0) and the calls made are: get the configuration, create the application,
  enter its context, \<open>db.create_all()\<close>, leave the context. So \<open>db.create_all\<close> is
  called once, it is the only call inside the application context, and no server,
  worker or shell loop is started.
\<close>

theorem create_all_creates_tables_once:
  "register_all
     (docopt \<lparr>cli_command = ''create_all'', cli_port = None, cli_log_dir = None, cli_config_prod = production\<rparr>)
     decorated None = Inr (Some create_all) \<and>
   (\<exists>w. script \<lparr>cli_command = ''create_all'', cli_port = None, cli_log_dir = None, cli_config_prod = production\<rparr> e = Inr w \<and>
        calls w =
          [GetConfig (if production then ''pypi_portal.config.Production'' else ''pypi_portal.config.Config''),
           CreateApp (if production then ''pypi_portal.config.Production'' else ''pypi_portal.config.Config'') False,
           ContextEnter, DbCreateAll, ContextExit] \<and>
        in_context 0 (calls w) = [DbCreateAll] \<and>
        count_list (calls w) DbCreateAll = 1 \<and>
        filter server_loop (calls w) = []) \<and>
   exit_code (script \<lparr>cli_command = ''create_all'', cli_port = None, cli_log_dir = None, cli_config_prod = production\<rparr> e) = 0"
  by (simp add: register_all_docopt find_decorated script_plain_flags func_body_simps
      create_all_body_docopt config_class_def)

section \<open>Selection of the handler, order of the steps, the port check\<close>

lemma decorated_in_grammar: "g \<in> set decorated \<Longrightarrow> func_name g \<in> set command_names"
  by (auto simp add: decorated_def command_names_def decorated_names)

lemma find_decorated_some:
  "n \<in> set command_names \<Longrightarrow>
     \<exists>f. find (\<lambda>g. n = func_name g) decorated = Some f \<and> func_name f = n \<and> f \<in> set decorated"
  by (auto simp add: find_decorated command_names_def decorated_names decorated_def)

lemma one_function_per_name:
  "n \<in> set command_names \<Longrightarrow> length (filter (\<lambda>g. func_name g = n) decorated) = 1"
  by (auto simp add: command_names_def decorated_def decorated_names)

text \<open>
  Claim C2. For every supported command given with no optional flag: one function of
  the module carries the command's name; each decorator call leaves \<open>command.chosen\<close>
  as it was unless the decorated function has that name, in which case it stores that
  function; after all registrations \<open>command.chosen\<close> holds that function; and the
  script then runs that function's body, and nothing else, on the process state left by
  the logging setup.
\<close>

theorem plain_command_selects_one_handler:
  "n \<in> set command_names \<Longrightarrow>
     (\<exists>f. f \<in> set decorated \<and> func_name f = n \<and>
          register_all (docopt (plain n)) decorated None = Inr (Some f) \<and>
          script (plain n) e =
            func_body f (docopt (plain n)) e
              (install_logging False (init_world\<lparr>sigint_exit := Some 0\<rparr>))) \<and>
     (\<forall>g \<in> set decorated. \<forall>chosen.
        command (docopt (plain n)) g chosen =
          Inr (if func_name g = n then Some g else chosen, g)) \<and>
     length (filter (\<lambda>g. func_name g = n) decorated) = 1"
proof (intro conjI)
  assume n: "n \<in> set command_names"
  from find_decorated_some [OF n] obtain f where
    f: "find (\<lambda>g. n = func_name g) decorated = Some f" "func_name f = n" "f \<in> set decorated"
    by blast
  have c: "cli_command (plain n) = n" "cli_log_dir (plain n) = None" "cli_port (plain n) = None"
    by (simp_all add: plain_def)
  have r: "register_all (docopt (plain n)) decorated None = Inr (Some f)"
    using f by (simp add: register_all_docopt c)
  have s: "script (plain n) e =
      func_body f (docopt (plain n)) e (install_logging False (init_world\<lparr>sigint_exit := Some 0\<rparr>))"
    using f by (simp add: script_plain_flags c)
  show "\<exists>f. f \<in> set decorated \<and> func_name f = n \<and>
          register_all (docopt (plain n)) decorated None = Inr (Some f) \<and>
          script (plain n) e =
            func_body f (docopt (plain n)) e
              (install_logging False (init_world\<lparr>sigint_exit := Some 0\<rparr>))"
    using f r s by blast
  show "\<forall>g \<in> set decorated. \<forall>chosen.
        command (docopt (plain n)) g chosen =
          Inr (if func_name g = n then Some g else chosen, g)"
    by (auto simp add: command_docopt decorated_in_grammar c)
  show "length (filter (\<lambda>g. func_name g = n) decorated) = 1"
    by (rule one_function_per_name [OF n])
qed

theorem plain_command_selects_one_handler_witness:
  "''celerybeat'' \<in> set command_names \<and>
   register_all (docopt (plain ''celerybeat'')) decorated None = Inr (Some celerybeat) \<and>
   script (plain ''celerybeat'') (example_env [] []) =
     celerybeat_body (docopt (plain ''celerybeat'')) (example_env [] [])
       (install_logging False (init_world\<lparr>sigint_exit := Some 0\<rparr>)) \<and>
   command (docopt (plain ''celerybeat'')) celerybeat None = Inr (Some celerybeat, celerybeat) \<and>
   command (docopt (plain ''celerybeat'')) shell (Some celerybeat) = Inr (Some celerybeat, shell) \<and>
   calls (final_world (script (plain ''celerybeat'') (example_env [] []))) =
     [GetConfig ''pypi_portal.config.Config'', CreateApp ''pypi_portal.config.Config'' True,
      ContextEnter, CeleryMain [''celery'', ''beat'', ''-C'', ''--pidfile=celery_beat.pid''],
      ContextExit]"
proof -
  have n: "''celerybeat'' \<in> set command_names" by (simp add: command_names_def)
  from plain_command_selects_one_handler [OF n, of "example_env [] []"]
  obtain f where f: "f \<in> set decorated" "func_name f = ''celerybeat''"
    "register_all (docopt (plain ''celerybeat'')) decorated None = Inr (Some f)"
    "script (plain ''celerybeat'') (example_env [] []) =
       func_body f (docopt (plain ''celerybeat'')) (example_env [] [])
         (install_logging False (init_world\<lparr>sigint_exit := Some 0\<rparr>))"
    and g: "\<forall>g \<in> set decorated. \<forall>chosen.
        command (docopt (plain ''celerybeat'')) g chosen =
          Inr (if func_name g = ''celerybeat'' then Some g else chosen, g)"
    by blast
  have fe: "f = celerybeat"
    using f(1,2) by (auto simp add: decorated_def decorated_names)
  have m: "celerybeat \<in> set decorated" "shell \<in> set decorated"
    by (simp_all add: decorated_def)
  have b: "calls (final_world (celerybeat_body (docopt (plain ''celerybeat'')) (example_env [] [])
       (install_logging False (init_world\<lparr>sigint_exit := Some 0\<rparr>)))) =
     [GetConfig ''pypi_portal.config.Config'', CreateApp ''pypi_portal.config.Config'' True,
      ContextEnter, CeleryMain [''celery'', ''beat'', ''-C'', ''--pidfile=celery_beat.pid''],
      ContextExit]"
    by (simp add: celerybeat_body_def celery_def parse_options_docopt and_then_def Let_def
        config_class_def plain_def)
  show ?thesis
    using n f(3,4) g m b by (simp add: fe func_body_simps decorated_names)
qed

lemma script_no_calls_on_exit:
  "setup_logging (docopt c) e (init_world\<lparr>sigint_exit := Some 0\<rparr>) = Inl x \<Longrightarrow>
     calls (final_world (script c e)) = []"
proof -
  assume a: "setup_logging (docopt c) e (init_world\<lparr>sigint_exit := Some 0\<rparr>) = Inl x"
  obtain y w' where x: "x = (y, w')" by (cases x)
  from setup_logging_docopt_exit [of c e "init_world\<lparr>sigint_exit := Some 0\<rparr>" y w'] a x
  have "calls w' = []" by (simp add: init_world_def)
  then show ?thesis using script_stops_in_setup_logging [OF a] x by simp
qed

lemma script_no_calls_on_bad_port:
  "\<not> isdigit (port_value c) \<Longrightarrow> calls (final_world (script c e)) = []"
proof (cases "setup_logging (docopt c) e (init_world\<lparr>sigint_exit := Some 0\<rparr>)")
  case (Inl x)
  then show ?thesis by (rule script_no_calls_on_exit)
next
  case (Inr w1)
  assume "\<not> isdigit (port_value c)"
  then have "script c e = Inl (SystemExit 1, print ''ERROR: Port should be a number.'' w1)"
    using Inr by (simp add: script_docopt and_then_def)
  moreover from setup_logging_docopt_ok [of c e "init_world\<lparr>sigint_exit := Some 0\<rparr>" w1] Inr
  have "calls w1 = []" by (simp add: init_world_def)
  ultimately show ?thesis by simp
qed

text \<open>
  Claim C8, amended. The script parses the options, configures logging, validates the
  port and only then calls the chosen handler. Hence: a handler has made a call only if
  the logging setup returned and the port is a digit string; an exit raised by the
  logging setup ends the script whatever the port is, so with a non-empty log directory
  that is missing or not writable and a non-numeric port the line printed is the one
  about the directory; the port error is raised in a process where the console handler
  and the SIGINT handler are already installed; the handler starts from that same state;
  and with an empty log-directory value, which the logging setup takes for an absent
  flag, a non-numeric port gives the port error.
\<close>

theorem validations_precede_handler:
  "(calls (final_world (script c e)) \<noteq> [] \<longrightarrow>
      (\<exists>b. setup_logging (docopt c) e (init_world\<lparr>sigint_exit := Some 0\<rparr>) =
              Inr (install_logging b (init_world\<lparr>sigint_exit := Some 0\<rparr>))) \<and>
      isdigit (port_value c)) \<and>
   (\<forall>x. setup_logging (docopt c) e (init_world\<lparr>sigint_exit := Some 0\<rparr>) = Inl x \<longrightarrow>
      script c e = Inl x) \<and>
   (\<forall>d. cli_log_dir c = Some d \<and> d \<noteq> [] \<and> (\<not> isdir e d \<or> \<not> access_w e d) \<and>
        \<not> isdigit (port_value c) \<longrightarrow>
      exit_code (script c e) = 1 \<and>
      stdout (final_world (script c e)) =
        [if \<not> isdir e d then ''ERROR: Directory '' @ d @ '' does not exist.''
         else ''ERROR: No permissions to write to directory '' @ d @ ''.'']) \<and>
   (\<forall>w1. setup_logging (docopt c) e (init_world\<lparr>sigint_exit := Some 0\<rparr>) = Inr w1 \<and>
         \<not> isdigit (port_value c) \<longrightarrow>
      script c e = Inl (SystemExit 1, print ''ERROR: Port should be a number.'' w1) \<and>
      root_handlers w1 \<noteq> [] \<and> sigint_exit w1 = Some 0) \<and>
   (\<forall>w1 f. setup_logging (docopt c) e (init_world\<lparr>sigint_exit := Some 0\<rparr>) = Inr w1 \<and>
           isdigit (port_value c) \<and>
           find (\<lambda>g. cli_command c = func_name g) decorated = Some f \<longrightarrow>
      script c e = func_body f (docopt c) e w1 \<and>
      root_handlers w1 \<noteq> [] \<and> sigint_exit w1 = Some 0) \<and>
   (cli_log_dir c = Some [] \<and> \<not> isdigit (port_value c) \<longrightarrow>
      exit_code (script c e) = 1 \<and>
      stdout (final_world (script c e)) = [''ERROR: Port should be a number.''])"
proof (intro conjI allI impI)
  let ?w0 = "init_world\<lparr>sigint_exit := Some 0\<rparr>"
  {
    assume a: "calls (final_world (script c e)) \<noteq> []"
    show "\<exists>b. setup_logging (docopt c) e ?w0 = Inr (install_logging b ?w0)"
    proof (cases "setup_logging (docopt c) e ?w0")
      case (Inl x)
      from script_no_calls_on_exit [OF Inl] a show ?thesis by simp
    next
      case (Inr w1)
      from setup_logging_docopt_ok [OF Inr] Inr show ?thesis by auto
    qed
    show "isdigit (port_value c)"
      using a script_no_calls_on_bad_port [of c e] by blast
  }
  {
    fix x assume "setup_logging (docopt c) e ?w0 = Inl x"
    then show "script c e = Inl x" by (rule script_stops_in_setup_logging)
  }
  {
    fix d
    assume a: "cli_log_dir c = Some d \<and> d \<noteq> [] \<and> (\<not> isdir e d \<or> \<not> access_w e d) \<and>
        \<not> isdigit (port_value c)"
    let ?m = "if \<not> isdir e d then ''ERROR: Directory '' @ d @ '' does not exist.''
              else ''ERROR: No permissions to write to directory '' @ d @ ''.''"
    have "setup_logging (docopt c) e ?w0 = Inl (SystemExit 1, print ?m ?w0)"
      using a by (auto simp add: setup_logging_docopt)
    then have s: "script c e = Inl (SystemExit 1, print ?m ?w0)"
      by (rule script_stops_in_setup_logging)
    show "exit_code (script c e) = 1" using s by simp
    show "stdout (final_world (script c e)) = [?m]" using s by (simp add: init_world_def)
  }
  {
    fix w1
    assume a: "setup_logging (docopt c) e ?w0 = Inr w1 \<and> \<not> isdigit (port_value c)"
    then show "script c e = Inl (SystemExit 1, print ''ERROR: Port should be a number.'' w1)"
      by (simp add: script_docopt and_then_def)
    from a setup_logging_docopt_ok [of c e ?w0 w1]
    show "root_handlers w1 \<noteq> []" "sigint_exit w1 = Some 0" by auto
  }
  {
    fix w1 f
    assume a: "setup_logging (docopt c) e ?w0 = Inr w1 \<and> isdigit (port_value c) \<and>
           find (\<lambda>g. cli_command c = func_name g) decorated = Some f"
    then show "script c e = func_body f (docopt c) e w1"
      by (simp add: script_docopt and_then_def)
    from a setup_logging_docopt_ok [of c e ?w0 w1]
    show "root_handlers w1 \<noteq> []" "sigint_exit w1 = Some 0" by auto
  }
  {
    assume a: "cli_log_dir c = Some [] \<and> \<not> isdigit (port_value c)"
    then have "setup_logging (docopt c) e ?w0 = Inr (install_logging False ?w0)"
      by (simp add: setup_logging_docopt)
    with a have s: "script c e =
        Inl (SystemExit 1, print ''ERROR: Port should be a number.'' (install_logging False ?w0))"
      by (simp add: script_docopt and_then_def)
    show "exit_code (script c e) = 1" using s by simp
    show "stdout (final_world (script c e)) = [''ERROR: Port should be a number.'']"
      using s by (simp add: init_world_def)
  }
qed

theorem validations_precede_handler_witness:
  "exit_code
     (script \<lparr>cli_command = ''devserver'', cli_port = Some ''http'', cli_log_dir = Some ''/nowhere'',
              cli_config_prod = False\<rparr> (example_env [''/etc''] [])) = 1 \<and>
   stdout (final_world
     (script \<lparr>cli_command = ''devserver'', cli_port = Some ''http'', cli_log_dir = Some ''/nowhere'',
              cli_config_prod = False\<rparr> (example_env [''/etc''] []))) =
     [''ERROR: Directory /nowhere does not exist.''] \<and>
   script \<lparr>cli_command = ''devserver'', cli_port = Some ''http'', cli_log_dir = None,
           cli_config_prod = False\<rparr> (example_env [''/etc''] []) =
     Inl (SystemExit 1,
          print ''ERROR: Port should be a number.''
            (install_logging False (init_world\<lparr>sigint_exit := Some 0\<rparr>))) \<and>
   calls (final_world (script (plain ''create_all'') (example_env [''/etc''] []))) \<noteq> [] \<and>
   isdigit (port_value (plain ''create_all'')) \<and>
   stdout (final_world
     (script \<lparr>cli_command = ''tornadoserver'', cli_port = Some ''80 '', cli_log_dir = Some '''',
              cli_config_prod = False\<rparr> (example_env [''/etc''] []))) =
     [''ERROR: Port should be a number.'']"
proof -
  let ?e = "example_env [''/etc''] []"
  let ?c1 = "\<lparr>cli_command = ''devserver'', cli_port = Some ''http'', cli_log_dir = Some ''/nowhere'',
              cli_config_prod = False\<rparr>"
  let ?c2 = "\<lparr>cli_command = ''devserver'', cli_port = Some ''http'', cli_log_dir = None,
              cli_config_prod = False\<rparr>"
  have nd: "\<not> isdigit ''http''" by (simp add: isdigit_def digit_char_def)
  have one: "exit_code (script ?c1 ?e) = 1 \<and>
     stdout (final_world (script ?c1 ?e)) = [''ERROR: Directory /nowhere does not exist.'']"
    using validations_precede_handler [of ?c1 ?e] nd
    by (simp add: example_env_def port_value_def)
  have two: "script ?c2 ?e =
     Inl (SystemExit 1,
          print ''ERROR: Port should be a number.''
            (install_logging False (init_world\<lparr>sigint_exit := Some 0\<rparr>)))"
    using validations_precede_handler [of ?c2 ?e] nd
    by (simp add: setup_logging_docopt port_value_def)
  have run: "calls (final_world (script (plain ''create_all'') ?e)) \<noteq> []"
    by (simp add: script_plain_flags plain_def find_decorated func_body_simps
        create_all_body_docopt)
  have three: "isdigit (port_value (plain ''create_all''))"
    using validations_precede_handler [of "plain ''create_all''" ?e] run by blast
  have nd': "\<not> isdigit ''80 ''" by (simp add: isdigit_def digit_char_def)
  have four: "stdout (final_world
     (script \<lparr>cli_command = ''tornadoserver'', cli_port = Some ''80 '', cli_log_dir = Some '''',
              cli_config_prod = False\<rparr> ?e)) = [''ERROR: Port should be a number.'']"
    using validations_precede_handler
      [of "\<lparr>cli_command = ''tornadoserver'', cli_port = Some ''80 '', cli_log_dir = Some '''',
              cli_config_prod = False\<rparr>" ?e] nd'
    by (simp add: port_value_def)
  show ?thesis using one two run three four by blast
qed

text \<open>
  Claim C8 as stated fails at \<open>devserver -l '' -p http\<close>: the empty path names no
  directory and the port is not numeric, so both values are invalid, yet the line
  printed is the one about the port, not one about the log directory.
\<close>

theorem empty_log_dir_bad_port_counterexample:
  "\<not> isdir (example_env [''/etc''] []) '''' \<and> \<not> isdigit ''http'' \<and>
   exit_code
     (script \<lparr>cli_command = ''devserver'', cli_port = Some ''http'', cli_log_dir = Some '''',
              cli_config_prod = False\<rparr> (example_env [''/etc''] [])) = 1 \<and>
   stdout (final_world
     (script \<lparr>cli_command = ''devserver'', cli_port = Some ''http'', cli_log_dir = Some '''',
              cli_config_prod = False\<rparr> (example_env [''/etc''] []))) =
     [''ERROR: Port should be a number.''] \<and>
   stdout (final_world
     (script \<lparr>cli_command = ''devserver'', cli_port = Some ''http'', cli_log_dir = Some '''',
              cli_config_prod = False\<rparr> (example_env [''/etc''] []))) \<noteq>
     [''ERROR: Directory  does not exist.'']"
proof -
  let ?c = "\<lparr>cli_command = ''devserver'', cli_port = Some ''http'', cli_log_dir = Some '''',
             cli_config_prod = False\<rparr>"
  let ?e = "example_env [''/etc''] []"
  let ?w0 = "init_world\<lparr>sigint_exit := Some 0\<rparr>"
  have nd: "\<not> isdigit ''http''" by (simp add: isdigit_def digit_char_def)
  have ne: "\<not> isdir ?e []" by (simp add: example_env_def)
  have "setup_logging (docopt ?c) ?e ?w0 = Inr (install_logging False ?w0)"
    by (simp add: setup_logging_docopt)
  then have s: "script ?c ?e =
      Inl (SystemExit 1, print ''ERROR: Port should be a number.'' (install_logging False ?w0))"
    using nd by (simp add: script_docopt and_then_def port_value_def)
  have "exit_code (script ?c ?e) = 1 \<and>
        stdout (final_world (script ?c ?e)) = [''ERROR: Port should be a number.'']"
    unfolding s by (simp add: init_world_def)
  then show ?thesis using nd ne by simp
qed

lemma last_call [simp]: "last (calls (call x w)) = x"
  by (simp add: call_def)

text \<open>
  Claim C10. Once logging is set up, the port check is \<open>str.isdigit\<close> and nothing else:
  the script goes on to the chosen handler exactly when the port is a non-empty string
  of decimal digits, and exits with code 1 otherwise. There is no range check: \<open>0\<close>,
  \<open>65536\<close> and \<open>99999\<close> pass, and \<open>devserver\<close> hands the number to \<open>app.run\<close>
  (\<open>tornadoserver\<close> hands the string to \<open>bind\<close>), while \<open>-1\<close>, \<open>+5\<close> and the empty
  string are rejected.
\<close>

theorem port_check_is_isdigit:
  "setup_logging (docopt c) e (init_world\<lparr>sigint_exit := Some 0\<rparr>) = Inr w1 \<Longrightarrow>
     isdigit (port_value c) = (port_value c \<noteq> [] \<and> set (port_value c) \<subseteq> set ''0123456789'') \<and>
     (\<not> isdigit (port_value c) \<longrightarrow>
        script c e = Inl (SystemExit 1, print ''ERROR: Port should be a number.'' w1) \<and>
        exit_code (script c e) = 1) \<and>
     (isdigit (port_value c) \<longrightarrow>
        script c e =
          (case find (\<lambda>g. cli_command c = func_name g) decorated of
             None \<Rightarrow> Inl (AttributeError ''chosen'', w1)
           | Some f \<Rightarrow> func_body f (docopt c) e w1)) \<and>
     (isdigit (port_value c) \<and> cli_command c = ''devserver'' \<longrightarrow>
        (\<exists>w. script c e = Inr w \<and>
             last (calls w) = AppRun ''0.0.0.0'' (int_of_digits (port_value c)))) \<and>
     (isdigit (port_value c) \<and> cli_command c = ''tornadoserver'' \<longrightarrow>
        (\<exists>w. script c e = Inr w \<and> ServerBind (PyStr (port_value c)) \<in> set (calls w))) \<and>
     isdigit ''0'' \<and> isdigit ''65536'' \<and> isdigit ''99999'' \<and>
     \<not> isdigit ''-1'' \<and> \<not> isdigit ''+5'' \<and> \<not> isdigit '''' \<and>
     int_of_digits ''0'' = 0 \<and> int_of_digits ''65536'' = 65536 \<and> int_of_digits ''99999'' = 99999"
proof -
  assume s: "setup_logging (docopt c) e (init_world\<lparr>sigint_exit := Some 0\<rparr>) = Inr w1"
  have a: "isdigit (port_value c) = (port_value c \<noteq> [] \<and> set (port_value c) \<subseteq> set ''0123456789'')"
    unfolding isdigit_def list_all_iff digit_char_def by blast
  have b: "\<not> isdigit (port_value c) \<longrightarrow>
        script c e = Inl (SystemExit 1, print ''ERROR: Port should be a number.'' w1) \<and>
        exit_code (script c e) = 1"
    using s by (simp add: script_docopt and_then_def)
  have d: "isdigit (port_value c) \<longrightarrow>
        script c e =
          (case find (\<lambda>g. cli_command c = func_name g) decorated of
             None \<Rightarrow> Inl (AttributeError ''chosen'', w1)
           | Some f \<Rightarrow> func_body f (docopt c) e w1)"
    using s by (simp add: script_docopt and_then_def)
  have f: "isdigit (port_value c) \<and> cli_command c = ''devserver'' \<longrightarrow>
        (\<exists>w. script c e = Inr w \<and>
             last (calls w) = AppRun ''0.0.0.0'' (int_of_digits (port_value c)))"
    using s
    by (simp add: script_docopt and_then_def find_decorated func_body_simps devserver_body_docopt)
  have g: "isdigit (port_value c) \<and> cli_command c = ''tornadoserver'' \<longrightarrow>
        (\<exists>w. script c e = Inr w \<and> ServerBind (PyStr (port_value c)) \<in> set (calls w))"
  proof (intro impI)
    assume h: "isdigit (port_value c) \<and> cli_command c = ''tornadoserver''"
    then have "script c e = tornadoserver_body (docopt c) e w1"
      using s by (simp add: script_docopt and_then_def find_decorated func_body_simps)
    with tornadoserver_body_docopt [of c e w1]
    show "\<exists>w. script c e = Inr w \<and> ServerBind (PyStr (port_value c)) \<in> set (calls w)"
      by auto
  qed
  have h: "isdigit ''0'' \<and> isdigit ''65536'' \<and> isdigit ''99999'' \<and>
     \<not> isdigit ''-1'' \<and> \<not> isdigit ''+5'' \<and> \<not> isdigit ''''"
    by (simp add: isdigit_def digit_char_def)
  have i: "int_of_digits ''0'' = 0 \<and> int_of_digits ''65536'' = 65536 \<and> int_of_digits ''99999'' = 99999"
    by (simp add: int_of_digits_def)
  show ?thesis using a b d f g h i by blast
qed

theorem port_check_is_isdigit_witness:
  "setup_logging (docopt (plain ''devserver'')) (example_env [] []) (init_world\<lparr>sigint_exit := Some 0\<rparr>) =
     Inr (install_logging False (init_world\<lparr>sigint_exit := Some 0\<rparr>)) \<and>
   (\<exists>w. script \<lparr>cli_command = ''devserver'', cli_port = Some ''65536'', cli_log_dir = None,
                 cli_config_prod = False\<rparr> (example_env [] []) = Inr w \<and>
        last (calls w) = AppRun ''0.0.0.0'' 65536) \<and>
   (\<exists>w. script \<lparr>cli_command = ''devserver'', cli_port = Some ''0'', cli_log_dir = None,
                 cli_config_prod = False\<rparr> (example_env [] []) = Inr w \<and>
        last (calls w) = AppRun ''0.0.0.0'' 0) \<and>
   exit_code (script \<lparr>cli_command = ''devserver'', cli_port = Some ''-1'', cli_log_dir = None,
                      cli_config_prod = False\<rparr> (example_env [] [])) = 1 \<and>
   exit_code (script \<lparr>cli_command = ''devserver'', cli_port = Some ''+5'', cli_log_dir = None,
                      cli_config_prod = False\<rparr> (example_env [] [])) = 1 \<and>
   exit_code (script \<lparr>cli_command = ''devserver'', cli_port = Some '''', cli_log_dir = None,
                      cli_config_prod = False\<rparr> (example_env [] [])) = 1"
proof -
  let ?e = "example_env [] []"
  let ?w1 = "install_logging False (init_world\<lparr>sigint_exit := Some 0\<rparr>)"
  have s: "setup_logging (docopt \<lparr>cli_command = ''devserver'', cli_port = p, cli_log_dir = None,
                 cli_config_prod = False\<rparr>) ?e (init_world\<lparr>sigint_exit := Some 0\<rparr>) = Inr ?w1" for p
    by (simp add: setup_logging_docopt)
  have d: "isdigit ''0''" "isdigit ''65536''" "\<not> isdigit ''-1''" "\<not> isdigit ''+5''" "\<not> isdigit ''''"
    by (simp_all add: isdigit_def digit_char_def)
  have i: "int_of_digits ''0'' = 0" "int_of_digits ''65536'' = 65536"
    by (simp_all add: int_of_digits_def)
  have accept: "\<exists>w. script \<lparr>cli_command = ''devserver'', cli_port = Some p, cli_log_dir = None,
                 cli_config_prod = False\<rparr> ?e = Inr w \<and>
        last (calls w) = AppRun ''0.0.0.0'' (int_of_digits p)" if "isdigit p" for p
    using port_check_is_isdigit [OF s [of "Some p"],
        THEN conjunct2, THEN conjunct2, THEN conjunct2, THEN conjunct1] that
    by (simp add: port_value_def)
  have reject: "exit_code (script \<lparr>cli_command = ''devserver'', cli_port = Some p, cli_log_dir = None,
                      cli_config_prod = False\<rparr> ?e) = 1" if "\<not> isdigit p" for p
    using port_check_is_isdigit [OF s [of "Some p"], THEN conjunct2, THEN conjunct1] that
    by (simp add: port_value_def)
  show ?thesis
    using s [of None] accept [OF d(1)] accept [OF d(2)] reject [OF d(3)] reject [OF d(4)]
      reject [OF d(5)]
    by (simp add: plain_def i)
qed

section \<open>Runs with a log directory\<close>

text \<open>
  Claim C1, at the command line \<open>devserver -l /var/log\<close> with \<open>/var/log\<close> an existing,
  writable directory. \<open>setup_logging\<close> returns with a single root handler, the console
  handler at level ERROR: records of level ERROR and FATAL reach the console, records of
  level DEBUG, INFO and WARN reach no handler at all, so none of them is written to a file
  in the directory. The whole run of \<open>devserver\<close> ends normally and its INFO lines were
  delivered nowhere.
\<close>

theorem setup_logging_log_dir_discards_below_error:
  "setup_logging
     (docopt \<lparr>cli_command = ''devserver'', cli_port = None, cli_log_dir = Some ''/var/log'',
               cli_config_prod = False\<rparr>)
     (example_env [''/var/log''] [''/var/log'']) init_world = Inr (install_logging True init_world) \<and>
   root_handlers (install_logging True init_world) = [console_handler True] \<and>
   log_targets (install_logging True init_world) DEBUG = [] \<and>
   log_targets (install_logging True init_world) INFO = [] \<and>
   log_targets (install_logging True init_world) WARN = [] \<and>
   log_targets (install_logging True init_world) ERROR = [Stream Stdout] \<and>
   log_targets (install_logging True init_world) FATAL = [Stream Stdout] \<and>
   exit_code
     (script \<lparr>cli_command = ''devserver'', cli_port = None, cli_log_dir = Some ''/var/log'',
              cli_config_prod = False\<rparr> (example_env [''/var/log''] [''/var/log''])) = 0 \<and>
   delivered (final_world
     (script \<lparr>cli_command = ''devserver'', cli_port = None, cli_log_dir = Some ''/var/log'',
              cli_config_prod = False\<rparr> (example_env [''/var/log''] [''/var/log'']))) = []"
proof -
  let ?c = "\<lparr>cli_command = ''devserver'', cli_port = None, cli_log_dir = Some ''/var/log'',
              cli_config_prod = False\<rparr>"
  let ?e = "example_env [''/var/log''] [''/var/log'']"
  have d: "isdigit (port_value ?c)"
    by (simp add: port_value_def isdigit_def digit_char_def)
  have s: "setup_logging (docopt ?c) ?e w = Inr (install_logging True w)" for w
    by (simp add: setup_logging_docopt example_env_def)
  have r: "script ?c ?e = devserver_body (docopt ?c) ?e (install_logging True (init_world\<lparr>sigint_exit := Some 0\<rparr>))"
    using d by (simp add: script_docopt s and_then_def find_decorated func_body_simps)
  have "exit_code (script ?c ?e) = 0 \<and> delivered (final_world (script ?c ?e)) = []"
    unfolding r devserver_body_docopt [OF d]
    by (simp add: log_messages_def log_emit_def log_targets_def DEBUG_def INFO_def ERROR_def
        init_world_def)
  then show ?thesis
    by (simp add: s console_with_log_dir DEBUG_def INFO_def WARN_def ERROR_def FATAL_def)
qed

text \<open>
  Claim C4 as stated fails at the empty log-directory value (\<open>devserver -l ''\<close>): the
  empty path names no directory, yet \<open>setup_logging\<close> prints nothing and returns with
  the console handler installed, since the empty string is false in the test of the
  flag; the run goes on to the handler and ends with exit code 0.
\<close>

theorem setup_logging_empty_log_dir_counterexample:
  "\<not> isdir (example_env [''/var/log''] [''/var/log'']) '''' \<and>
   setup_logging
     (docopt \<lparr>cli_command = ''devserver'', cli_port = None, cli_log_dir = Some '''',
               cli_config_prod = False\<rparr>)
     (example_env [''/var/log''] [''/var/log'']) init_world = Inr (install_logging False init_world) \<and>
   stdout (install_logging False init_world) = [] \<and>
   exit_code
     (script \<lparr>cli_command = ''devserver'', cli_port = None, cli_log_dir = Some '''',
              cli_config_prod = False\<rparr> (example_env [''/var/log''] [''/var/log''])) = 0 \<and>
   stdout (final_world
     (script \<lparr>cli_command = ''devserver'', cli_port = None, cli_log_dir = Some '''',
              cli_config_prod = False\<rparr> (example_env [''/var/log''] [''/var/log'']))) = []"
proof -
  let ?c = "\<lparr>cli_command = ''devserver'', cli_port = None, cli_log_dir = Some '''',
              cli_config_prod = False\<rparr>"
  let ?e = "example_env [''/var/log''] [''/var/log'']"
  have d: "isdigit (port_value ?c)"
    by (simp add: port_value_def isdigit_def digit_char_def)
  have s: "setup_logging (docopt ?c) ?e w = Inr (install_logging False w)" for w
    by (simp add: setup_logging_docopt)
  have r: "script ?c ?e = devserver_body (docopt ?c) ?e (install_logging False (init_world\<lparr>sigint_exit := Some 0\<rparr>))"
    using d by (simp add: script_docopt s and_then_def find_decorated func_body_simps)
  have "exit_code (script ?c ?e) = 0 \<and> stdout (final_world (script ?c ?e)) = []"
    unfolding r devserver_body_docopt [OF d]
    by (simp add: init_world_def)
  moreover have "\<not> isdir ?e []"
    by (simp add: example_env_def)
  ultimately show ?thesis
    by (simp add: s)
qed

end
